theory Spec2Isabelle
  imports Main "HOL-Library.Multiset" "HOL-Library.Sublist"
begin

section \<open>Strings of the host language and of the SQL engine\<close>

text \<open>
  A string is a list of characters; the 256 values of \<^typ>\<open>char\<close> are read as the code
  points U+0000 to U+00FF. \<open>toLowerCase\<close> is the host language's
  \<^verbatim>\<open>String.prototype.toLowerCase\<close> on that range: the ASCII capitals and the Latin-1
  capitals U+00C0 to U+00DE (but not the multiplication sign U+00D7) move up by 32.
\<close>

definition toLowerCase_char :: "char \<Rightarrow> char" where
  "toLowerCase_char c =
     (let n = (of_char c :: nat) in
      if (65 \<le> n \<and> n \<le> 90) \<or> (192 \<le> n \<and> n \<le> 222 \<and> n \<noteq> 215)
      then char_of (n + 32) else c)"

definition toLowerCase :: "string \<Rightarrow> string" where
  "toLowerCase s = map toLowerCase_char s"

text \<open>
  The SQL engine's \<^verbatim>\<open>LIKE\<close>. Its comparison (\<^verbatim>\<open>patternCompare\<close>) folds the ASCII
  capitals only before it compares two characters; \<^verbatim>\<open>%\<close> in the pattern stands for
  any run of characters and \<^verbatim>\<open>_\<close> for any single character. The source passes no
  \<^verbatim>\<open>ESCAPE\<close> clause, so neither can be quoted. The first argument is the pattern, the
  second the text. Both are C strings there: \<open>c_string\<close> is what the engine reads of a
  text value, the characters before its first U+0000.
\<close>

definition like_fold :: "char \<Rightarrow> char" where
  "like_fold c =
     (let n = (of_char c :: nat) in
      if 65 \<le> n \<and> n \<le> 90 then char_of (n + 32) else c)"

fun patternCompare :: "string \<Rightarrow> string \<Rightarrow> bool" where
  "patternCompare [] s = (s = [])"
| "patternCompare (p # ps) [] = (p = CHR ''%'' \<and> patternCompare ps [])"
| "patternCompare (p # ps) (c # cs) =
     (if p = CHR ''%'' then patternCompare ps (c # cs) \<or> patternCompare (p # ps) cs
      else (p = CHR ''_'' \<or> like_fold p = like_fold c) \<and> patternCompare ps cs)"

definition c_string :: "string \<Rightarrow> string" where
  "c_string s = takeWhile (\<lambda>c. c \<noteq> CHR 0x00) s"

text \<open>
  The number of bytes of a text value in UTF-8: one for a code point below U+0080, two
  for the others of the range.
\<close>

definition utf8_length :: "string \<Rightarrow> int" where
  "utf8_length s = sum_list (map (\<lambda>c. if (of_char c :: nat) < 128 then 1 else 2) s)"

section \<open>JSON text of string arrays\<close>

text \<open>
  \<^verbatim>\<open>JSON.stringify\<close> on a string and on an array of strings. A string is written between
  double quotes; the double quote, the backslash and the control characters below U+0020
  are escaped, the five with a short escape by it, the others as \<^verbatim>\<open>\u00XX\<close> in
  lower-case hexadecimal.
\<close>

definition hex_digit :: "nat \<Rightarrow> char" where
  "hex_digit d = (if d < 10 then char_of (48 + d) else char_of (87 + d))"

definition QuoteJSONChar :: "char \<Rightarrow> string" where
  "QuoteJSONChar c =
     (if c = CHR 0x22 then [CHR 0x5C, CHR 0x22]
      else if c = CHR 0x5C then [CHR 0x5C, CHR 0x5C]
      else if c = CHR 0x08 then [CHR 0x5C, CHR ''b'']
      else if c = CHR 0x09 then [CHR 0x5C, CHR ''t'']
      else if c = CHR 0x0A then [CHR 0x5C, CHR ''n'']
      else if c = CHR 0x0C then [CHR 0x5C, CHR ''f'']
      else if c = CHR 0x0D then [CHR 0x5C, CHR ''r'']
      else if (of_char c :: nat) < 32
        then [CHR 0x5C, CHR ''u'', CHR ''0'', CHR ''0'',
              hex_digit (of_char c div 16), hex_digit (of_char c mod 16)]
      else [c])"

definition QuoteJSONString :: "string \<Rightarrow> string" where
  "QuoteJSONString s = CHR 0x22 # concat (map QuoteJSONChar s) @ [CHR 0x22]"

fun join_commas :: "string list \<Rightarrow> string" where
  "join_commas [] = []"
| "join_commas [x] = x"
| "join_commas (x # y # ys) = x @ CHR '','' # join_commas (y # ys)"

definition JSON_stringify :: "string list \<Rightarrow> string" where
  "JSON_stringify xs = CHR ''['' # join_commas (map QuoteJSONString xs) @ [CHR '']'']"

text \<open>
  \<^verbatim>\<open>JSON.parse\<close>, for the texts that denote an array of strings: a scanner that reads
  the text one character at a time. White space is allowed around the brackets, the
  elements and the commas; inside a string a backslash starts one of the escapes
  \<^verbatim>\<open>\" \\ \/ \b \f \n \r \t \uXXXX\<close>, and a raw control character is an error. The
  result \<open>None\<close> stands for the \<^verbatim>\<open>SyntaxError\<close> that \<^verbatim>\<open>JSON.parse\<close> throws, and
  also for the texts outside this model: a JSON value that is not an array of strings,
  and a \<^verbatim>\<open>\uXXXX\<close> escape of a code point above U+00FF.
\<close>

datatype pstate =
    PStart
  | POpen
  | PStr "string list" string
  | PEsc "string list" string
  | PUni "string list" string "nat list"
  | PAfter "string list"
  | PComma "string list"
  | PDone "string list"
  | PFail

definition is_ws :: "char \<Rightarrow> bool" where
  "is_ws c = (c = CHR 0x20 \<or> c = CHR 0x09 \<or> c = CHR 0x0A \<or> c = CHR 0x0D)"

definition hex_val :: "char \<Rightarrow> nat option" where
  "hex_val c =
     (let n = (of_char c :: nat) in
      if 48 \<le> n \<and> n \<le> 57 then Some (n - 48)
      else if 97 \<le> n \<and> n \<le> 102 then Some (n - 87)
      else if 65 \<le> n \<and> n \<le> 70 then Some (n - 55)
      else None)"

definition unescape :: "char \<Rightarrow> char option" where
  "unescape c =
     (if c = CHR 0x22 then Some (CHR 0x22)
      else if c = CHR 0x5C then Some (CHR 0x5C)
      else if c = CHR ''/'' then Some (CHR ''/'')
      else if c = CHR ''b'' then Some (CHR 0x08)
      else if c = CHR ''f'' then Some (CHR 0x0C)
      else if c = CHR ''n'' then Some (CHR 0x0A)
      else if c = CHR ''r'' then Some (CHR 0x0D)
      else if c = CHR ''t'' then Some (CHR 0x09)
      else None)"

fun code_point :: "nat list \<Rightarrow> nat" where
  "code_point ds = foldl (\<lambda>acc d. 16 * acc + d) 0 ds"

fun pstep :: "pstate \<Rightarrow> char \<Rightarrow> pstate" where
  "pstep PStart c =
     (if is_ws c then PStart else if c = CHR ''['' then POpen else PFail)"
| "pstep POpen c =
     (if is_ws c then POpen
      else if c = CHR '']'' then PDone []
      else if c = CHR 0x22 then PStr [] []
      else PFail)"
| "pstep (PStr done cur) c =
     (if c = CHR 0x22 then PAfter (done @ [cur])
      else if c = CHR 0x5C then PEsc done cur
      else if (of_char c :: nat) < 32 then PFail
      else PStr done (cur @ [c]))"
| "pstep (PEsc done cur) c =
     (if c = CHR ''u'' then PUni done cur []
      else (case unescape c of
              Some e \<Rightarrow> PStr done (cur @ [e])
            | None \<Rightarrow> PFail))"
| "pstep (PUni done cur ds) c =
     (case hex_val c of
        None \<Rightarrow> PFail
      | Some d \<Rightarrow>
          if length ds < 3 then PUni done cur (ds @ [d])
          else if code_point (ds @ [d]) < 256
            then PStr done (cur @ [char_of (code_point (ds @ [d]))])
          else PFail)"
| "pstep (PAfter done) c =
     (if is_ws c then PAfter done
      else if c = CHR '','' then PComma done
      else if c = CHR '']'' then PDone done
      else PFail)"
| "pstep (PComma done) c =
     (if is_ws c then PComma done
      else if c = CHR 0x22 then PStr done []
      else PFail)"
| "pstep (PDone done) c = (if is_ws c then PDone done else PFail)"
| "pstep PFail c = PFail"

definition JSON_parse :: "string \<Rightarrow> string list option" where
  "JSON_parse text = (case foldl pstep PStart text of PDone xs \<Rightarrow> Some xs | _ \<Rightarrow> None)"

section \<open>The two tables\<close>

text \<open>
  A \<^verbatim>\<open>Date\<close> is a number of milliseconds since the epoch. A column of mode
  \<^verbatim>\<open>timestamp\<close> keeps whole seconds: writing a date divides by 1000 and rounds down,
  reading multiplies by 1000.
\<close>

type_synonym Date = int

definition timestamp_mapToDriverValue :: "Date \<Rightarrow> int" where
  "timestamp_mapToDriverValue d = d div 1000"

definition timestamp_mapFromDriverValue :: "int \<Rightarrow> Date" where
  "timestamp_mapFromDriverValue secs = secs * 1000"

text \<open>
  The \<^verbatim>\<open>tags\<close> column has mode \<^verbatim>\<open>json\<close>: it keeps a JSON value, which the repository
  reads back either as a string (what \<open>createNote\<close> and \<open>updateNote\<close> write: the text
  \<^verbatim>\<open>JSON.stringify(tags)\<close>) or as an array of strings (a row that took the column's
  default). The text of the column, which the engine's \<^verbatim>\<open>LIKE\<close> sees, is the JSON
  text of that value.
\<close>

datatype json = JStr string | JArr "string list"

fun json_text :: "json \<Rightarrow> string" where
  "json_text (JStr s) = QuoteJSONString s"
| "json_text (JArr xs) = JSON_stringify xs"

record categories_row =
  c_id :: string
  c_name :: string
  c_color :: string
  c_created_at :: int

record notes_row =
  n_id :: string
  n_title :: string
  n_content :: string
  n_category_id :: string
  n_tags :: json
  n_created_at :: int
  n_updated_at :: int

record database =
  categories_table :: "categories_row list"
  notes_table :: "notes_row list"

definition empty_database :: database where
  "empty_database = \<lparr>categories_table = [], notes_table = []\<rparr>"

text \<open>The records of \<^verbatim>\<open>shared/schema.ts\<close>, as the repository's callers see them.\<close>

record Category =
  category_id :: string
  category_name :: string
  category_color :: string
  category_createdAt :: Date

record Note =
  note_id :: string
  note_title :: string
  note_content :: string
  note_categoryId :: string
  note_tags :: "string list"
  note_createdAt :: Date
  note_updatedAt :: Date

record InsertCategory =
  ic_name :: string
  ic_color :: "string option"

record PartialInsertCategory =
  pc_name :: "string option"
  pc_color :: "string option"

record InsertNote =
  in_title :: string
  in_content :: "string option"
  in_categoryId :: string
  in_tags :: "string list option"

record UpdateNote =
  un_title :: "string option"
  un_content :: "string option"
  un_categoryId :: "string option"
  un_tags :: "string list option"

text \<open>
  What a call throws: the engine's two constraint failures (the primary keys, and the
  foreign key of \<^verbatim>\<open>notes.category_id\<close>, which \<^verbatim>\<open>database.ts\<close> switches on), its
  refusal of an over-long \<^verbatim>\<open>LIKE\<close> pattern (\<^verbatim>\<open>LIKE or GLOB pattern too complex\<close>), the
  query builder's refusal of an update that sets no column, and the \<^verbatim>\<open>SyntaxError\<close> of
  \<^verbatim>\<open>JSON.parse\<close>.
\<close>

datatype error =
    SQLITE_CONSTRAINT_PRIMARYKEY
  | SQLITE_CONSTRAINT_FOREIGNKEY
  | LikePatternTooComplex
  | NoValuesToSet
  | SyntaxError

datatype 'a outcome = Returned 'a | Thrown error

subsection \<open>Statements of the engine\<close>

text \<open>
  \<^verbatim>\<open>like(column, pattern)\<close> of the query builder, as the engine evaluates it for one row
  (\<^verbatim>\<open>likeFunc\<close>): a pattern of more than 50000 bytes is an error, whatever the text;
  otherwise the pattern and the text are compared as C strings. The operators
  \<^verbatim>\<open>and\<close> and \<^verbatim>\<open>or\<close> take their operands from left to right and stop at the first
  that decides or throws.
\<close>

definition SQLITE_MAX_LIKE_PATTERN_LENGTH :: int where
  "SQLITE_MAX_LIKE_PATTERN_LENGTH = 50000"

definition like :: "string \<Rightarrow> string \<Rightarrow> bool outcome" where
  "like column_text pattern =
     (if utf8_length pattern > SQLITE_MAX_LIKE_PATTERN_LENGTH then Thrown LikePatternTooComplex
      else Returned (patternCompare (c_string pattern) (c_string column_text)))"

definition sql_or :: "bool outcome \<Rightarrow> bool outcome \<Rightarrow> bool outcome" where
  "sql_or a b =
     (case a of Thrown e \<Rightarrow> Thrown e | Returned x \<Rightarrow> if x then Returned True else b)"

definition sql_and :: "bool outcome \<Rightarrow> bool outcome \<Rightarrow> bool outcome" where
  "sql_and a b =
     (case a of Thrown e \<Rightarrow> Thrown e | Returned x \<Rightarrow> if x then b else Returned False)"

definition insert_categories :: "categories_row \<Rightarrow> database \<Rightarrow> unit outcome \<times> database" where
  "insert_categories row db =
     (if c_id row \<in> set (map c_id (categories_table db))
        then (Thrown SQLITE_CONSTRAINT_PRIMARYKEY, db)
      else (Returned (), db\<lparr>categories_table := categories_table db @ [row]\<rparr>))"

definition insert_notes :: "notes_row \<Rightarrow> database \<Rightarrow> unit outcome \<times> database" where
  "insert_notes row db =
     (if n_id row \<in> set (map n_id (notes_table db))
        then (Thrown SQLITE_CONSTRAINT_PRIMARYKEY, db)
      else if n_category_id row \<notin> set (map c_id (categories_table db))
        then (Thrown SQLITE_CONSTRAINT_FOREIGNKEY, db)
      else (Returned (), db\<lparr>notes_table := notes_table db @ [row]\<rparr>))"

text \<open>
  \<^verbatim>\<open>update categories set ... where id = ?\<close>, with the values of the partial input.
  An update statement needs at least one assignment: given no value to set, the query
  builder's \<^verbatim>\<open>set\<close> throws (\<^verbatim>\<open>No values to set\<close>) and no statement reaches the engine.
\<close>

definition set_categories :: "PartialInsertCategory \<Rightarrow> categories_row \<Rightarrow> categories_row" where
  "set_categories vals row =
     row\<lparr>c_name := (case pc_name vals of None \<Rightarrow> c_name row | Some v \<Rightarrow> v),
         c_color := (case pc_color vals of None \<Rightarrow> c_color row | Some v \<Rightarrow> v)\<rparr>"

definition update_categories ::
  "PartialInsertCategory \<Rightarrow> string \<Rightarrow> database \<Rightarrow> unit outcome \<times> database" where
  "update_categories vals i db =
     (if pc_name vals = None \<and> pc_color vals = None then (Thrown NoValuesToSet, db)
      else (Returned (),
            db\<lparr>categories_table :=
                 map (\<lambda>row. if c_id row = i then set_categories vals row else row)
                   (categories_table db)\<rparr>))"

text \<open>
  \<^verbatim>\<open>update notes set ... where id = ?\<close>, with the values \<open>updateNote\<close> collects:
  \<^verbatim>\<open>updatedAt\<close> always, the four others when present. The foreign key is checked when
  \<^verbatim>\<open>category_id\<close> is assigned in a row.
\<close>

record notes_set =
  set_updatedAt :: Date
  set_title :: "string option"
  set_content :: "string option"
  set_categoryId :: "string option"
  set_tags :: "string option"

definition set_notes :: "notes_set \<Rightarrow> notes_row \<Rightarrow> notes_row" where
  "set_notes vals row =
     row\<lparr>n_updated_at := timestamp_mapToDriverValue (set_updatedAt vals),
         n_title := (case set_title vals of None \<Rightarrow> n_title row | Some v \<Rightarrow> v),
         n_content := (case set_content vals of None \<Rightarrow> n_content row | Some v \<Rightarrow> v),
         n_category_id :=
           (case set_categoryId vals of None \<Rightarrow> n_category_id row | Some v \<Rightarrow> v),
         n_tags := (case set_tags vals of None \<Rightarrow> n_tags row | Some v \<Rightarrow> JStr v)\<rparr>"

definition update_notes :: "notes_set \<Rightarrow> string \<Rightarrow> database \<Rightarrow> unit outcome \<times> database" where
  "update_notes vals i db =
     (case set_categoryId vals of
        Some c \<Rightarrow>
          if i \<in> set (map n_id (notes_table db)) \<and> c \<notin> set (map c_id (categories_table db))
          then (Thrown SQLITE_CONSTRAINT_FOREIGNKEY, db)
          else (Returned (),
                db\<lparr>notes_table :=
                     map (\<lambda>row. if n_id row = i then set_notes vals row else row)
                       (notes_table db)\<rparr>)
      | None \<Rightarrow>
          (Returned (),
           db\<lparr>notes_table :=
                map (\<lambda>row. if n_id row = i then set_notes vals row else row)
                  (notes_table db)\<rparr>))"

text \<open>The two deletes return the number of rows they removed (\<^verbatim>\<open>changes\<close>).\<close>

definition delete_notes_where_categoryId :: "string \<Rightarrow> database \<Rightarrow> nat \<times> database" where
  "delete_notes_where_categoryId c db =
     (length (filter (\<lambda>row. n_category_id row = c) (notes_table db)),
      db\<lparr>notes_table := filter (\<lambda>row. n_category_id row \<noteq> c) (notes_table db)\<rparr>)"

definition delete_notes_where_id :: "string \<Rightarrow> database \<Rightarrow> nat \<times> database" where
  "delete_notes_where_id i db =
     (length (filter (\<lambda>row. n_id row = i) (notes_table db)),
      db\<lparr>notes_table := filter (\<lambda>row. n_id row \<noteq> i) (notes_table db)\<rparr>)"

text \<open>
  Deleting a category row takes the notes that reference it along
  (\<^verbatim>\<open>ON DELETE CASCADE\<close>).
\<close>

definition delete_categories_where_id :: "string \<Rightarrow> database \<Rightarrow> nat \<times> database" where
  "delete_categories_where_id i db =
     (length (filter (\<lambda>row. c_id row = i) (categories_table db)),
      db\<lparr>categories_table := filter (\<lambda>row. c_id row \<noteq> i) (categories_table db),
         notes_table := (if i \<in> set (map c_id (categories_table db))
                   then filter (\<lambda>row. n_category_id row \<noteq> i) (notes_table db)
                   else notes_table db)\<rparr>)"

section \<open>The repository: \<^verbatim>\<open>SqliteStorage\<close>\<close>

text \<open>
  Every operation takes the database and returns what the call returns or throws; an
  operation that writes returns the database it leaves as well. The identifier of
  \<^verbatim>\<open>randomUUID()\<close> and the time of \<^verbatim>\<open>new Date()\<close> are arguments.
\<close>

definition select_category :: "categories_row \<Rightarrow> Category" where
  "select_category row =
     \<lparr>category_id = c_id row, category_name = c_name row, category_color = c_color row,
      category_createdAt = timestamp_mapFromDriverValue (c_created_at row)\<rparr>"

definition getCategories :: "database \<Rightarrow> Category list" where
  "getCategories db = map select_category (sort_key c_created_at (categories_table db))"

definition getCategory :: "database \<Rightarrow> string \<Rightarrow> Category option" where
  "getCategory db i =
     map_option select_category (find (\<lambda>row. c_id row = i) (categories_table db))"

definition createCategory ::
  "string \<Rightarrow> Date \<Rightarrow> InsertCategory \<Rightarrow> database \<Rightarrow> Category outcome \<times> database" where
  "createCategory uuid now insertCategory db =
     (let category =
            \<lparr>category_id = uuid,
             category_name = ic_name insertCategory,
             category_color =
               (case ic_color insertCategory of
                  None \<Rightarrow> ''#3b82f6''
                | Some c \<Rightarrow> if c = [] then ''#3b82f6'' else c),
             category_createdAt = now\<rparr>
      in case insert_categories
                \<lparr>c_id = category_id category, c_name = category_name category,
                 c_color = category_color category,
                 c_created_at = timestamp_mapToDriverValue (category_createdAt category)\<rparr> db of
           (Thrown e, db') \<Rightarrow> (Thrown e, db')
         | (Returned _, db') \<Rightarrow> (Returned category, db'))"

definition updateCategory ::
  "string \<Rightarrow> PartialInsertCategory \<Rightarrow> database \<Rightarrow> Category option outcome \<times> database" where
  "updateCategory i categoryUpdate db =
     (case getCategory db i of
        None \<Rightarrow> (Returned None, db)
      | Some existing \<Rightarrow>
          (let updated =
                 existing\<lparr>category_name :=
                            (case pc_name categoryUpdate of
                               None \<Rightarrow> category_name existing | Some v \<Rightarrow> v),
                          category_color :=
                            (case pc_color categoryUpdate of
                               None \<Rightarrow> category_color existing | Some v \<Rightarrow> v)\<rparr>
           in case update_categories categoryUpdate i db of
                (Thrown e, db') \<Rightarrow> (Thrown e, db')
              | (Returned _, db') \<Rightarrow> (Returned (Some updated), db')))"

definition deleteCategory :: "string \<Rightarrow> database \<Rightarrow> bool outcome \<times> database" where
  "deleteCategory i db =
     (let (_, db1) = delete_notes_where_categoryId i db;
          (changes, db2) = delete_categories_where_id i db1
      in (Returned (changes > 0), db2))"

text \<open>
  The tags of a selected row: \<^verbatim>\<open>typeof tags === 'string' ? JSON.parse(tags) : tags\<close>
  (in \<open>getNotes\<close> the other branch is \<^verbatim>\<open>tags || []\<close>, and an array is never falsy).
\<close>

fun parse_tags :: "json \<Rightarrow> string list outcome" where
  "parse_tags (JStr s) =
     (case JSON_parse s of None \<Rightarrow> Thrown SyntaxError | Some xs \<Rightarrow> Returned xs)"
| "parse_tags (JArr xs) = Returned xs"

definition select_note :: "notes_row \<Rightarrow> Note outcome" where
  "select_note row =
     (case parse_tags (n_tags row) of
        Thrown e \<Rightarrow> Thrown e
      | Returned ts \<Rightarrow>
          Returned
            \<lparr>note_id = n_id row, note_title = n_title row, note_content = n_content row,
             note_categoryId = n_category_id row, note_tags = ts,
             note_createdAt = timestamp_mapFromDriverValue (n_created_at row),
             note_updatedAt = timestamp_mapFromDriverValue (n_updated_at row)\<rparr>)"

text \<open>\<^verbatim>\<open>result.map(f)\<close> where \<open>f\<close> may throw: the first failure ends the loop.\<close>

fun map_outcome :: "('a \<Rightarrow> 'b outcome) \<Rightarrow> 'a list \<Rightarrow> 'b list outcome" where
  "map_outcome f [] = Returned []"
| "map_outcome f (x # xs) =
     (case f x of
        Thrown e \<Rightarrow> Thrown e
      | Returned y \<Rightarrow>
          (case map_outcome f xs of Thrown e \<Rightarrow> Thrown e | Returned ys \<Rightarrow> Returned (y # ys)))"

text \<open>
  The conditions \<open>getNotes\<close> collects. Both arguments are tested for truthiness, so an
  empty string adds no condition, like an absent argument.
\<close>

definition whereConditions ::
  "string option \<Rightarrow> string option \<Rightarrow> (notes_row \<Rightarrow> bool outcome) list" where
  "whereConditions categoryId search =
     (case categoryId of
        None \<Rightarrow> []
      | Some c \<Rightarrow> if c = [] then [] else [\<lambda>row. Returned (n_category_id row = c)]) @
     (case search of
        None \<Rightarrow> []
      | Some s \<Rightarrow>
          if s = [] then []
          else (let searchLower = toLowerCase s in
                [\<lambda>row. sql_or (like (n_title row) (''%'' @ searchLower @ ''%''))
                         (sql_or (like (n_content row) (''%'' @ searchLower @ ''%''))
                            (like (json_text (n_tags row)) (''%'' @ searchLower @ ''%'')))]))"

text \<open>
  \<^verbatim>\<open>and(...whereConditions)\<close>, and the query: the engine tests the rows of the table one
  after the other, a condition that throws ends the statement, and the rows that meet
  the conditions come by ascending \<^verbatim>\<open>updated_at\<close>. Rows with the same \<^verbatim>\<open>updated_at\<close>
  stay in the order of the table here; no property below depends on how the engine
  orders them.
\<close>

fun and_conditions :: "(notes_row \<Rightarrow> bool outcome) list \<Rightarrow> notes_row \<Rightarrow> bool outcome" where
  "and_conditions [] row = Returned True"
| "and_conditions (cond # conds) row = sql_and (cond row) (and_conditions conds row)"

fun where_rows :: "(notes_row \<Rightarrow> bool outcome) \<Rightarrow> notes_row list \<Rightarrow> notes_row list outcome" where
  "where_rows cond [] = Returned []"
| "where_rows cond (row # rows) =
     (case cond row of
        Thrown e \<Rightarrow> Thrown e
      | Returned x \<Rightarrow>
          (case where_rows cond rows of
             Thrown e \<Rightarrow> Thrown e
           | Returned found \<Rightarrow> Returned (if x then row # found else found)))"

definition select_notes ::
  "database \<Rightarrow> string option \<Rightarrow> string option \<Rightarrow> notes_row list outcome" where
  "select_notes db categoryId search =
     (let conds = whereConditions categoryId search in
      if length conds > 0
      then (case where_rows (and_conditions conds) (notes_table db) of
              Thrown e \<Rightarrow> Thrown e
            | Returned found \<Rightarrow> Returned (sort_key n_updated_at found))
      else Returned (sort_key n_updated_at (notes_table db)))"

definition getNotes :: "database \<Rightarrow> string option \<Rightarrow> string option \<Rightarrow> Note list outcome" where
  "getNotes db categoryId search =
     (case select_notes db categoryId search of
        Thrown e \<Rightarrow> Thrown e
      | Returned result \<Rightarrow>
          (case map_outcome select_note result of
             Thrown e \<Rightarrow> Thrown e
           | Returned ns \<Rightarrow> Returned (rev ns)))"

definition getNote :: "database \<Rightarrow> string \<Rightarrow> Note option outcome" where
  "getNote db i =
     (case find (\<lambda>row. n_id row = i) (notes_table db) of
        None \<Rightarrow> Returned None
      | Some row \<Rightarrow>
          (case select_note row of Thrown e \<Rightarrow> Thrown e | Returned n \<Rightarrow> Returned (Some n)))"

definition createNote ::
  "string \<Rightarrow> Date \<Rightarrow> InsertNote \<Rightarrow> database \<Rightarrow> Note outcome \<times> database" where
  "createNote uuid now insertNote db =
     (let note =
            \<lparr>note_id = uuid,
             note_title = in_title insertNote,
             note_content = (case in_content insertNote of None \<Rightarrow> [] | Some c \<Rightarrow> c),
             note_categoryId = in_categoryId insertNote,
             note_tags = (case in_tags insertNote of None \<Rightarrow> [] | Some ts \<Rightarrow> ts),
             note_createdAt = now,
             note_updatedAt = now\<rparr>;
          noteForDb =
            \<lparr>n_id = note_id note,
             n_title = note_title note,
             n_content = note_content note,
             n_category_id = note_categoryId note,
             n_tags = JStr (JSON_stringify (note_tags note)),
             n_created_at = timestamp_mapToDriverValue (note_createdAt note),
             n_updated_at = timestamp_mapToDriverValue (note_updatedAt note)\<rparr>
      in case insert_notes noteForDb db of
           (Thrown e, db') \<Rightarrow> (Thrown e, db')
         | (Returned _, db') \<Rightarrow> (Returned note, db'))"

definition updateNote ::
  "string \<Rightarrow> Date \<Rightarrow> UpdateNote \<Rightarrow> database \<Rightarrow> Note option outcome \<times> database" where
  "updateNote i now noteUpdate db =
     (case getNote db i of
        Thrown e \<Rightarrow> (Thrown e, db)
      | Returned None \<Rightarrow> (Returned None, db)
      | Returned (Some existing) \<Rightarrow>
          (let updated =
                 existing\<lparr>note_title :=
                            (case un_title noteUpdate of None \<Rightarrow> note_title existing | Some v \<Rightarrow> v),
                          note_content :=
                            (case un_content noteUpdate of None \<Rightarrow> note_content existing | Some v \<Rightarrow> v),
                          note_categoryId :=
                            (case un_categoryId noteUpdate of
                               None \<Rightarrow> note_categoryId existing | Some v \<Rightarrow> v),
                          note_tags :=
                            (case un_tags noteUpdate of None \<Rightarrow> note_tags existing | Some v \<Rightarrow> v),
                          note_updatedAt := now\<rparr>;
               updateForDb =
                 \<lparr>set_updatedAt = note_updatedAt updated,
                  set_title = un_title noteUpdate,
                  set_content = un_content noteUpdate,
                  set_categoryId = un_categoryId noteUpdate,
                  set_tags = map_option JSON_stringify (un_tags noteUpdate)\<rparr>
           in case update_notes updateForDb i db of
                (Thrown e, db') \<Rightarrow> (Thrown e, db')
              | (Returned _, db') \<Rightarrow> (Returned (Some updated), db')))"

definition deleteNote :: "string \<Rightarrow> database \<Rightarrow> bool outcome \<times> database" where
  "deleteNote i db =
     (let (changes, db') = delete_notes_where_id i db in (Returned (changes > 0), db'))"

text \<open>
  \<open>getCategoryNoteCounts\<close>: one pass over the \<^verbatim>\<open>category_id\<close> column, with
  \<^verbatim>\<open>counts[k] = (counts[k] || 0) + 1\<close> at each row. \<open>noteCount\<close> is the route's
  \<^verbatim>\<open>counts[category.id] || 0\<close>.
\<close>

definition count_note :: "(string \<rightharpoonup> nat) \<Rightarrow> string \<Rightarrow> (string \<rightharpoonup> nat)" where
  "count_note counts k = counts(k \<mapsto> (case counts k of None \<Rightarrow> 0 | Some v \<Rightarrow> v) + 1)"

definition getCategoryNoteCounts :: "database \<Rightarrow> (string \<rightharpoonup> nat)" where
  "getCategoryNoteCounts db = foldl count_note Map.empty (map n_category_id (notes_table db))"

definition noteCount :: "(string \<rightharpoonup> nat) \<Rightarrow> string \<Rightarrow> nat" where
  "noteCount counts i = (case counts i of None \<Rightarrow> 0 | Some v \<Rightarrow> v)"

section \<open>Start-up: \<^verbatim>\<open>database.ts\<close>\<close>

text \<open>
  \<open>initializeDatabase\<close> creates the two tables if they do not exist and touches no row:
  a new file is the empty database afterwards. \<open>seedDatabase\<close> inserts the four default
  categories, one statement each, when the table of categories is empty; its arguments
  are the four identifiers and the four times it draws.
\<close>

definition initializeDatabase :: "database \<Rightarrow> unit outcome \<times> database" where
  "initializeDatabase db = (Returned (), db)"

definition defaultCategories ::
  "string \<times> string \<times> string \<times> string \<Rightarrow> (string \<times> string \<times> string) list" where
  "defaultCategories uuids =
     (case uuids of (u1, u2, u3, u4) \<Rightarrow>
        [(u1, ''Work Notes'', ''#3b82f6''),
         (u2, ''Personal'', ''#10b981''),
         (u3, ''Ideas'', ''#ef4444''),
         (u4, ''Prompts'', ''#8b5cf6'')])"

fun insert_each ::
  "((string \<times> string \<times> string) \<times> Date) list \<Rightarrow> database \<Rightarrow> unit outcome \<times> database" where
  "insert_each [] db = (Returned (), db)"
| "insert_each (((i, name, color), now) # rest) db =
     (case insert_categories
             \<lparr>c_id = i, c_name = name, c_color = color,
              c_created_at = timestamp_mapToDriverValue now\<rparr> db of
        (Thrown e, db') \<Rightarrow> (Thrown e, db')
      | (Returned _, db') \<Rightarrow> insert_each rest db')"

definition seedDatabase ::
  "string \<times> string \<times> string \<times> string \<Rightarrow> Date \<times> Date \<times> Date \<times> Date \<Rightarrow> database \<Rightarrow>
   unit outcome \<times> database" where
  "seedDatabase uuids dates db =
     (if length (categories_table db) = 0
      then (case dates of (t1, t2, t3, t4) \<Rightarrow>
              insert_each (zip (defaultCategories uuids) [t1, t2, t3, t4]) db)
      else (Returned (), db))"

definition initialize ::
  "string \<times> string \<times> string \<times> string \<Rightarrow> Date \<times> Date \<times> Date \<times> Date \<Rightarrow> database \<Rightarrow>
   unit outcome \<times> database" where
  "initialize uuids dates db =
     (case initializeDatabase db of
        (Thrown e, db') \<Rightarrow> (Thrown e, db')
      | (Returned _, db') \<Rightarrow> seedDatabase uuids dates db')"

section \<open>The properties, stated\<close>

subsection \<open>Listing notes\<close>







subsection \<open>Referential integrity and the reachable states\<close>

definition no_orphans :: "database \<Rightarrow> bool" where
  "no_orphans db =
     (set (map n_category_id (notes_table db)) \<subseteq> set (map c_id (categories_table db)))"

datatype operation =
    CreateCategory string Date InsertCategory
  | UpdateCategory string PartialInsertCategory
  | DeleteCategory string
  | CreateNote string Date InsertNote
  | UpdateNote string Date UpdateNote
  | DeleteNote string
  | SeedDatabase "string \<times> string \<times> string \<times> string" "Date \<times> Date \<times> Date \<times> Date"

fun apply_operation :: "operation \<Rightarrow> database \<Rightarrow> database" where
  "apply_operation (CreateCategory uuid now c) db = snd (createCategory uuid now c db)"
| "apply_operation (UpdateCategory i c) db = snd (updateCategory i c db)"
| "apply_operation (DeleteCategory i) db = snd (deleteCategory i db)"
| "apply_operation (CreateNote uuid now n) db = snd (createNote uuid now n db)"
| "apply_operation (UpdateNote i now n) db = snd (updateNote i now n db)"
| "apply_operation (DeleteNote i) db = snd (deleteNote i db)"
| "apply_operation (SeedDatabase uuids dates) db = snd (seedDatabase uuids dates db)"

inductive reachable :: "database \<Rightarrow> bool" where
  seeded: "reachable (snd (initialize uuids dates empty_database))"
| step: "reachable db \<Longrightarrow> reachable (apply_operation op db)"

subsection \<open>A small store for the examples\<close>

definition example_seeded :: database where
  "example_seeded =
     snd (initialize (''c1'', ''c2'', ''c3'', ''c4'') (1000, 1000, 1000, 1000) empty_database)"

definition example_insert :: InsertNote where
  "example_insert =
     \<lparr>in_title = ''Plan'', in_content = Some ''<p>Buy milk</p>'', in_categoryId = ''c1'',
      in_tags = Some [''a'', ''b'']\<rparr>"

definition example_db :: database where
  "example_db = snd (createNote ''n1'' 5000 example_insert example_seeded)"

definition title_only :: "string \<Rightarrow> UpdateNote" where
  "title_only t = \<lparr>un_title = Some t, un_content = None, un_categoryId = None, un_tags = None\<rparr>"

definition example_note :: Note where
  "example_note =
     \<lparr>note_id = ''n1'', note_title = ''Plan'', note_content = ''<p>Buy milk</p>'',
      note_categoryId = ''c1'', note_tags = [''a'', ''b''], note_createdAt = 5000,
      note_updatedAt = 5000\<rparr>"



subsection \<open>Updating a note\<close>

text \<open>
  The record an update must give, in the specification's words: each of the four fields
  is taken from the partial input when it is present there and keeps its value
  otherwise; \<^verbatim>\<open>updatedAt\<close> is the time given.
\<close>

definition merge_note :: "Note \<Rightarrow> UpdateNote \<Rightarrow> Date \<Rightarrow> Note" where
  "merge_note existing noteUpdate now =
     \<lparr>note_id = note_id existing,
      note_title = (case un_title noteUpdate of None \<Rightarrow> note_title existing | Some v \<Rightarrow> v),
      note_content = (case un_content noteUpdate of None \<Rightarrow> note_content existing | Some v \<Rightarrow> v),
      note_categoryId =
        (case un_categoryId noteUpdate of None \<Rightarrow> note_categoryId existing | Some v \<Rightarrow> v),
      note_tags = (case un_tags noteUpdate of None \<Rightarrow> note_tags existing | Some v \<Rightarrow> v),
      note_createdAt = note_createdAt existing,
      note_updatedAt = now\<rparr>"

definition category_known :: "database \<Rightarrow> string option \<Rightarrow> bool" where
  "category_known db c =
     (case c of None \<Rightarrow> True | Some v \<Rightarrow> v \<in> set (map c_id (categories_table db)))"

subsection \<open>Stored tags that can be read\<close>

definition tags_readable :: "database \<Rightarrow> bool" where
  "tags_readable db =
     list_all (\<lambda>row. case parse_tags (n_tags row) of Returned _ \<Rightarrow> True | Thrown _ \<Rightarrow> False)
       (notes_table db)"

section \<open>Lemmas\<close>

subsection \<open>JSON text reads back\<close>

lemma quote_char_step:
  "foldl pstep (PStr done cur) (QuoteJSONChar c) = PStr done (cur @ [c])"
proof (cases "(of_char c::nat) < 32")
  case True
  then have "(of_char c :: nat) \<in> set [0..<32]" by simp
  then have "c \<in> char_of ` set [0..<32::nat]" by (metis char_of_char imageI)
  then show ?thesis
    by (auto simp: QuoteJSONChar_def hex_digit_def hex_val_def unescape_def Let_def)
next
  case False
  then show ?thesis
    by (auto simp: QuoteJSONChar_def unescape_def)
qed

lemma quote_chars_step:
  "foldl pstep (PStr done cur) (concat (map QuoteJSONChar s)) = PStr done (cur @ s)"
  by (induction s arbitrary: cur) (simp_all add: quote_char_step)

lemma quote_string_step:
  "pstep st (CHR 0x22) = PStr done [] \<Longrightarrow>
   foldl pstep st (QuoteJSONString s) = PAfter (done @ [s])"
  by (simp add: QuoteJSONString_def quote_chars_step)

lemma join_step:
  "pstep st (CHR 0x22) = PStr done [] \<Longrightarrow>
   foldl pstep st (join_commas (map QuoteJSONString (x # xs))) = PAfter (done @ x # xs)"
proof (induction xs arbitrary: x "done" st)
  case Nil
  then show ?case by (simp add: quote_string_step)
next
  case (Cons y ys)
  have "foldl pstep (PComma (done @ [x])) (join_commas (map QuoteJSONString (y # ys))) =
          PAfter ((done @ [x]) @ y # ys)"
    by (rule Cons.IH) (simp add: is_ws_def)
  then show ?case using Cons.prems
    by (simp add: quote_string_step is_ws_def)
qed

lemma JSON_parse_stringify: "JSON_parse (JSON_stringify xs) = Some xs"
proof (cases xs)
  case Nil
  then show ?thesis by (simp add: JSON_parse_def JSON_stringify_def is_ws_def)
next
  case (Cons y ys)
  have "foldl pstep POpen (join_commas (map QuoteJSONString (y # ys))) = PAfter ([] @ y # ys)"
    by (rule join_step) (simp add: is_ws_def)
  then have "foldl pstep PStart (JSON_stringify xs) = PDone xs"
    using Cons by (simp add: JSON_stringify_def is_ws_def)
  then show ?thesis by (simp add: JSON_parse_def)
qed

subsection \<open>What a \<^verbatim>\<open>LIKE\<close> pattern between two percent signs matches\<close>

lemma patternCompare_percent: "patternCompare ''%'' t"
  by (induction t) simp_all



lemma patternCompare_percents: "patternCompare ''%%%'' t"
  by (induction t) (simp_all add: patternCompare_percent)

lemma like_any: "like str ''%%%'' = Returned True"
  by (simp add: like_def utf8_length_def SQLITE_MAX_LIKE_PATTERN_LENGTH_def c_string_def
        patternCompare_percents)





lemma utf8_length_append: "utf8_length (xs @ ys) = utf8_length xs + utf8_length ys"
  by (simp add: utf8_length_def)








subsection \<open>Looking a row up by its identifier\<close>

lemma find_None_fresh: "i \<notin> set (map f xs) \<Longrightarrow> find (\<lambda>row. f row = i) xs = None"
  by (induction xs) auto

lemma find_append_fresh:
  "i \<notin> set (map f xs) \<Longrightarrow>
   find (\<lambda>row. f row = i) (xs @ [x]) = (if f x = i then Some x else None)"
  by (induction xs) auto

lemma find_map_update:
  "(\<And>row. f (g row) = f row) \<Longrightarrow>
   find (\<lambda>row. f row = i) (map (\<lambda>row. if f row = i then g row else row) xs) =
     map_option g (find (\<lambda>row. f row = i) xs)"
  by (induction xs) auto

lemma find_Some_in_ids: "find (\<lambda>row. f row = i) xs = Some x \<Longrightarrow> i \<in> set (map f xs)"
  by (induction xs) (auto split: if_splits)

lemma filter_fresh: "i \<notin> set (map f xs) \<Longrightarrow> filter (\<lambda>row. f row \<noteq> i) xs = xs"
  by (induction xs) auto

lemma filter_fresh_eq: "i \<notin> set (map f xs) \<Longrightarrow> filter (\<lambda>row. f row = i) xs = []"
  by (induction xs) auto

subsection \<open>What the writing operations leave\<close>

lemma set_notes_id: "n_id (set_notes vals row) = n_id row"
  by (simp add: set_notes_def)

lemma set_categories_id: "c_id (set_categories vals row) = c_id row"
  by (simp add: set_categories_def)

lemma map_c_id_update:
  "map c_id (map (\<lambda>row. if c_id row = i then set_categories vals row else row) rows) = map c_id rows"
  by (induction rows) (simp_all add: set_categories_id)

lemma snd_updateCategory:
  "snd (updateCategory i c db) = db \<or>
   snd (updateCategory i c db) = snd (update_categories c i db)"
  by (cases "update_categories c i db")
     (auto simp: updateCategory_def Let_def split: option.splits outcome.splits)

lemma snd_updateNote:
  "snd (updateNote i now n db) = db \<or>
   snd (updateNote i now n db) =
     snd (update_notes \<lparr>set_updatedAt = now, set_title = un_title n, set_content = un_content n,
                        set_categoryId = un_categoryId n,
                        set_tags = map_option JSON_stringify (un_tags n)\<rparr> i db)"
  by (cases "update_notes \<lparr>set_updatedAt = now, set_title = un_title n, set_content = un_content n,
                        set_categoryId = un_categoryId n,
                        set_tags = map_option JSON_stringify (un_tags n)\<rparr> i db")
     (auto simp: updateNote_def Let_def split: option.splits outcome.splits)

text \<open>
  No writing operation makes a note an orphan, whether it returns or throws: the engine
  refuses a note whose category is not stored, and removes the notes of a category with
  the category.
\<close>

lemma no_orphans_insert_categories: "no_orphans db \<Longrightarrow> no_orphans (snd (insert_categories row db))"
  by (auto simp: no_orphans_def insert_categories_def)

lemma no_orphans_createCategory: "no_orphans db \<Longrightarrow> no_orphans (snd (createCategory uuid now c db))"
  by (auto simp: no_orphans_def createCategory_def insert_categories_def Let_def)

lemma no_orphans_same_ids:
  "map c_id (categories_table db') = map c_id (categories_table db) \<Longrightarrow>
   notes_table db' = notes_table db \<Longrightarrow> no_orphans db \<Longrightarrow> no_orphans db'"
  by (simp add: no_orphans_def)

lemma no_orphans_update_categories:
  "no_orphans db \<Longrightarrow> no_orphans (snd (update_categories vals i db))"
  by (rule no_orphans_same_ids[of _ db])
     (simp_all add: update_categories_def map_c_id_update set_categories_id)

lemma no_orphans_updateCategory: "no_orphans db \<Longrightarrow> no_orphans (snd (updateCategory i c db))"
  using snd_updateCategory[of i c db] no_orphans_update_categories[of db c i] by auto

lemma no_orphans_deleteCategory: "no_orphans db \<Longrightarrow> no_orphans (snd (deleteCategory i db))"
  by (auto simp: no_orphans_def deleteCategory_def delete_notes_where_categoryId_def delete_categories_where_id_def)

lemma no_orphans_createNote: "no_orphans db \<Longrightarrow> no_orphans (snd (createNote uuid now n db))"
  by (auto simp: no_orphans_def createNote_def insert_notes_def Let_def)

lemma no_orphans_update_notes: "no_orphans db \<Longrightarrow> no_orphans (snd (update_notes vals i db))"
  by (auto simp: no_orphans_def update_notes_def set_notes_def split: option.splits if_splits)

lemma no_orphans_updateNote: "no_orphans db \<Longrightarrow> no_orphans (snd (updateNote i now n db))"
  using snd_updateNote[of i now n db] no_orphans_update_notes[of db _ i] by auto

lemma no_orphans_deleteNote: "no_orphans db \<Longrightarrow> no_orphans (snd (deleteNote i db))"
  by (auto simp: no_orphans_def deleteNote_def delete_notes_where_id_def)

lemma no_orphans_insert_each: "no_orphans db \<Longrightarrow> no_orphans (snd (insert_each rows db))"
proof (induction rows db rule: insert_each.induct)
  case (1 db)
  then show ?case by simp
next
  case (2 i name color now rest db)
  let ?row = "\<lparr>c_id = i, c_name = name, c_color = color,
               c_created_at = timestamp_mapToDriverValue now\<rparr>"
  show ?case
  proof (cases "insert_categories ?row db")
    case (Pair r db')
    have inv': "no_orphans db'"
      using no_orphans_insert_categories[OF "2.prems", of ?row] Pair by simp
    show ?thesis
    proof (cases r)
      case (Returned u)
      then show ?thesis using Pair inv' "2.IH" by simp
    next
      case (Thrown e)
      then show ?thesis using Pair inv' by simp
    qed
  qed
qed

lemma no_orphans_seedDatabase: "no_orphans db \<Longrightarrow> no_orphans (snd (seedDatabase uuids dates db))"
  by (cases dates) (auto simp: seedDatabase_def no_orphans_insert_each)

lemma no_orphans_initialize: "no_orphans db \<Longrightarrow> no_orphans (snd (initialize uuids dates db))"
  by (simp add: initialize_def initializeDatabase_def no_orphans_seedDatabase)

lemma no_orphans_empty: "no_orphans empty_database"
  by (simp add: no_orphans_def empty_database_def)

lemma no_orphans_apply: "no_orphans db \<Longrightarrow> no_orphans (apply_operation op db)"
  by (cases op)
     (simp_all add: no_orphans_createCategory no_orphans_updateCategory no_orphans_deleteCategory
        no_orphans_createNote no_orphans_updateNote no_orphans_deleteNote no_orphans_seedDatabase)

lemma reachable_no_orphans: "reachable db \<Longrightarrow> no_orphans db"
  by (induction rule: reachable.induct)
     (simp_all add: no_orphans_initialize no_orphans_empty no_orphans_apply)

text \<open>
  Every tags value that the repository writes is the JSON text of a list of strings, so
  every tags value of a reachable store can be read.
\<close>

lemma tags_readable_same_notes:
  "notes_table db' = notes_table db \<Longrightarrow> tags_readable db \<Longrightarrow> tags_readable db'"
  by (simp add: tags_readable_def)

lemma tags_readable_insert_categories: "tags_readable db \<Longrightarrow> tags_readable (snd (insert_categories row db))"
  by (rule tags_readable_same_notes[of _ db]) (simp_all add: insert_categories_def)

lemma tags_readable_createCategory: "tags_readable db \<Longrightarrow> tags_readable (snd (createCategory uuid now c db))"
  by (rule tags_readable_same_notes[of _ db])
     (simp_all add: createCategory_def insert_categories_def Let_def)

lemma tags_readable_updateCategory: "tags_readable db \<Longrightarrow> tags_readable (snd (updateCategory i c db))"
  by (rule tags_readable_same_notes[of _ db])
     (auto simp: updateCategory_def update_categories_def Let_def split: option.splits)

lemma tags_readable_deleteCategory: "tags_readable db \<Longrightarrow> tags_readable (snd (deleteCategory i db))"
  by (auto simp: tags_readable_def deleteCategory_def delete_notes_where_categoryId_def
        delete_categories_where_id_def list_all_iff)

lemma tags_readable_createNote: "tags_readable db \<Longrightarrow> tags_readable (snd (createNote uuid now n db))"
  by (auto simp: tags_readable_def createNote_def insert_notes_def Let_def JSON_parse_stringify)

lemma tags_readable_update_notes:
  "tags_readable db \<Longrightarrow>
   tags_readable (snd (update_notes \<lparr>set_updatedAt = now, set_title = t, set_content = c,
                        set_categoryId = k, set_tags = map_option JSON_stringify ts\<rparr> i db))"
  by (cases ts)
     (auto simp: tags_readable_def update_notes_def set_notes_def list_all_iff JSON_parse_stringify
        split: option.splits)

lemma tags_readable_updateNote: "tags_readable db \<Longrightarrow> tags_readable (snd (updateNote i now n db))"
  using snd_updateNote[of i now n db] tags_readable_update_notes[of db now _ _ _ "un_tags n" i]
  by auto

lemma tags_readable_deleteNote: "tags_readable db \<Longrightarrow> tags_readable (snd (deleteNote i db))"
  by (auto simp: tags_readable_def deleteNote_def delete_notes_where_id_def list_all_iff)

lemma notes_insert_each: "notes_table (snd (insert_each rows db)) = notes_table db"
proof (induction rows db rule: insert_each.induct)
  case (1 db)
  show ?case by simp
next
  case (2 i name color now rest db)
  then show ?case
    by (auto simp: insert_categories_def)
qed

lemma tags_readable_seedDatabase: "tags_readable db \<Longrightarrow> tags_readable (snd (seedDatabase uuids dates db))"
  by (rule tags_readable_same_notes[of _ db])
     (cases dates, auto simp: seedDatabase_def notes_insert_each)

lemma tags_readable_apply: "tags_readable db \<Longrightarrow> tags_readable (apply_operation op db)"
  by (cases op)
     (simp_all add: tags_readable_createCategory tags_readable_updateCategory
        tags_readable_deleteCategory tags_readable_createNote tags_readable_updateNote
        tags_readable_deleteNote tags_readable_seedDatabase)

lemma reachable_tags_readable: "reachable db \<Longrightarrow> tags_readable db"
proof (induction rule: reachable.induct)
  case (seeded uuids dates)
  have "tags_readable empty_database" by (simp add: tags_readable_def empty_database_def)
  then show ?case
    by (simp add: initialize_def initializeDatabase_def tags_readable_seedDatabase)
next
  case (step db op)
  then show ?case by (simp add: tags_readable_apply)
qed

subsection \<open>The query of \<open>getNotes\<close>\<close>

lemma where_rows_filter:
  "(\<And>row. cond row = Returned (P row)) \<Longrightarrow> where_rows cond rows = Returned (filter P rows)"
  by (induction rows) simp_all



lemma select_notes_percent:
  "select_notes db None (Some ''%'') = Returned (sort_key n_updated_at (notes_table db))"
proof -
  have "toLowerCase ''%'' = ''%''"
    by (simp add: toLowerCase_def toLowerCase_char_def)
  then have "where_rows (and_conditions (whereConditions None (Some ''%''))) (notes_table db) =
          Returned (filter (\<lambda>row. True) (notes_table db))"
    by (intro where_rows_filter) (simp add: whereConditions_def like_any sql_or_def sql_and_def)
  then show ?thesis
    by (simp add: select_notes_def whereConditions_def Let_def)
qed

lemma select_notes_unfiltered:
  "select_notes db None None = Returned (sort_key n_updated_at (notes_table db))"
  by (simp add: select_notes_def whereConditions_def)

lemma select_note_Thrown: "select_note row = Thrown e \<Longrightarrow> e = SyntaxError"
  by (cases "n_tags row") (auto simp: select_note_def split: option.splits outcome.splits)

lemma map_outcome_Thrown:
  "map_outcome select_note rows = Thrown e \<Longrightarrow> e = SyntaxError"
  by (induction rows arbitrary: e) (auto split: outcome.splits dest: select_note_Thrown)

lemma map_outcome_append:
  "map_outcome f (xs @ ys) =
     (case map_outcome f xs of
        Thrown e \<Rightarrow> Thrown e
      | Returned us \<Rightarrow>
          (case map_outcome f ys of Thrown e \<Rightarrow> Thrown e | Returned vs \<Rightarrow> Returned (us @ vs)))"
  by (induction xs) (auto split: outcome.splits)

lemma map_outcome_rev:
  "map_outcome select_note (rev rows) =
     (case map_outcome select_note rows of
        Thrown e \<Rightarrow> Thrown e
      | Returned ns \<Rightarrow> Returned (rev ns))"
proof (induction rows)
  case Nil
  show ?case by simp
next
  case (Cons r rs)
  show ?case
    using Cons select_note_Thrown[of r] map_outcome_Thrown[of rs]
    by (auto simp: map_outcome_append split: outcome.splits)
qed

lemma getNotes_rev:
  "select_notes db categoryId search = Returned found \<Longrightarrow>
   getNotes db categoryId search = map_outcome select_note (rev found)"
  by (simp add: getNotes_def map_outcome_rev)

lemma select_note_readable:
  "(case parse_tags (n_tags row) of Returned _ \<Rightarrow> True | Thrown _ \<Rightarrow> False) \<Longrightarrow>
   \<exists>n. select_note row = Returned n"
  by (auto simp: select_note_def split: outcome.splits)

lemma map_outcome_readable:
  "list_all (\<lambda>row. case parse_tags (n_tags row) of Returned _ \<Rightarrow> True | Thrown _ \<Rightarrow> False) rows \<Longrightarrow>
   \<exists>ns. map_outcome select_note rows = Returned ns \<and>
        list_all2 (\<lambda>row n. select_note row = Returned n) rows ns"
proof (induction rows)
  case Nil
  show ?case by simp
next
  case (Cons r rs)
  obtain n where n: "select_note r = Returned n"
    using Cons.prems select_note_readable[of r] by auto
  obtain ns where ns: "map_outcome select_note rs = Returned ns"
    "list_all2 (\<lambda>row n. select_note row = Returned n) rs ns"
    using Cons by auto
  show ?case using n ns by simp
qed

lemma tags_readable_subset:
  assumes "tags_readable db" "set rows \<subseteq> set (notes_table db)"
  shows "list_all (\<lambda>row. case parse_tags (n_tags row) of Returned _ \<Rightarrow> True | Thrown _ \<Rightarrow> False) rows"
  using assms by (auto simp: tags_readable_def list_all_iff)

lemma selected_notes_ids:
  "list_all2 (\<lambda>row n. select_note row = Returned n) rows ns \<Longrightarrow> map note_id ns = map n_id rows"
  by (induction rows ns rule: list_all2_induct)
     (auto simp: select_note_def split: outcome.splits)

text \<open>
  What a listing gives once the query has returned its rows: the notes of these rows,
  latest first, when the tags of the store can be read.
\<close>

lemma getNotes_of_rows:
  assumes sel: "select_notes db categoryId search = Returned (sort_key n_updated_at found)"
    and sub: "set found \<subseteq> set (notes_table db)"
  shows "\<exists>rows. getNotes db categoryId search = map_outcome select_note rows \<and>
           mset rows = mset found \<and>
           sorted (rev (map n_updated_at rows)) \<and>
           (tags_readable db \<longrightarrow>
              (\<exists>ns. getNotes db categoryId search = Returned ns \<and>
                    list_all2 (\<lambda>row n. select_note row = Returned n) rows ns))"
proof -
  let ?rows = "rev (sort_key n_updated_at found)"
  have eq: "getNotes db categoryId search = map_outcome select_note ?rows"
    using sel by (rule getNotes_rev)
  have "mset ?rows = mset found" by simp
  moreover have "sorted (rev (map n_updated_at ?rows))"
    by (simp add: rev_map[symmetric])
  moreover have "\<exists>ns. getNotes db categoryId search = Returned ns \<and>
                    list_all2 (\<lambda>row n. select_note row = Returned n) ?rows ns"
    if "tags_readable db"
  proof -
    have "set ?rows \<subseteq> set (notes_table db)"
      using sub by simp
    then show ?thesis
      using map_outcome_readable[OF tags_readable_subset[OF that]] eq by simp
  qed
  ultimately show ?thesis using eq by blast
qed


section \<open>The claims\<close>

subsection \<open>Listing notes\<close>




text \<open>
  C10. The search string \<^verbatim>\<open>%\<close> gives the pattern \<^verbatim>\<open>%%%\<close>, which every text
  matches. With no category argument \<open>getNotes\<close> does with it what it does without a
  search string: it reads the tags of a list of rows that holds every stored note, each
  as often as it is stored and whatever its fields contain, latest \<^verbatim>\<open>updated_at\<close>
  first. Where every stored tags value can be read, as in every reachable store, the
  call returns one note for each of these rows: as many notes as are stored, with the
  identifiers of the stored notes.
\<close>

theorem getNotes_percent_lists_all:
  "getNotes db None (Some ''%'') = getNotes db None None \<and>
   (\<exists>rows. getNotes db None (Some ''%'') = map_outcome select_note rows \<and>
      mset rows = mset (notes_table db) \<and>
      sorted (rev (map n_updated_at rows)) \<and>
      (tags_readable db \<longrightarrow>
         (\<exists>ns. getNotes db None (Some ''%'') = Returned ns \<and>
               list_all2 (\<lambda>row n. select_note row = Returned n) rows ns \<and>
               length ns = length (notes_table db) \<and>
               mset (map note_id ns) = mset (map n_id (notes_table db)))))"
proof -
  have same: "getNotes db None (Some ''%'') = getNotes db None None"
    by (simp add: getNotes_def select_notes_percent select_notes_unfiltered)
  have "\<exists>rows. getNotes db None (Some ''%'') = map_outcome select_note rows \<and>
           mset rows = mset (notes_table db) \<and>
           sorted (rev (map n_updated_at rows)) \<and>
           (tags_readable db \<longrightarrow>
              (\<exists>ns. getNotes db None (Some ''%'') = Returned ns \<and>
                    list_all2 (\<lambda>row n. select_note row = Returned n) rows ns))"
    by (rule getNotes_of_rows[OF select_notes_percent]) simp
  then obtain rows where eq: "getNotes db None (Some ''%'') = map_outcome select_note rows"
    and perm: "mset rows = mset (notes_table db)"
    and desc: "sorted (rev (map n_updated_at rows))"
    and ret: "tags_readable db \<longrightarrow>
                (\<exists>ns. getNotes db None (Some ''%'') = Returned ns \<and>
                      list_all2 (\<lambda>row n. select_note row = Returned n) rows ns)"
    by blast
  have "\<exists>ns. getNotes db None (Some ''%'') = Returned ns \<and>
               list_all2 (\<lambda>row n. select_note row = Returned n) rows ns \<and>
               length ns = length (notes_table db) \<and>
               mset (map note_id ns) = mset (map n_id (notes_table db))"
    if readable: "tags_readable db"
  proof -
    obtain ns where ns: "getNotes db None (Some ''%'') = Returned ns"
      "list_all2 (\<lambda>row n. select_note row = Returned n) rows ns"
      using ret readable by blast
    have "length ns = length rows"
      using ns(2) by (simp add: list_all2_lengthD)
    also have "\<dots> = length (notes_table db)"
      using perm by (rule mset_eq_length)
    finally have len: "length ns = length (notes_table db)" .
    have "mset (map note_id ns) = mset (map n_id rows)"
      using selected_notes_ids[OF ns(2)] by simp
    also have "\<dots> = mset (map n_id (notes_table db))"
      using perm by (metis mset_map)
    finally show ?thesis using ns len by blast
  qed
  then show ?thesis using same eq perm desc by blast
qed

theorem getNotes_percent_lists_all_witness:
  "tags_readable example_db \<and>
   getNotes example_db None (Some ''%'') = Returned [example_note] \<and>
   CHR ''%'' \<notin> set (note_title example_note) \<and>
   CHR ''%'' \<notin> set (note_content example_note) \<and>
   CHR ''%'' \<notin> set (concat (note_tags example_note)) \<and>
   length (notes_table example_db) = 1 \<and>
   (\<exists>rows. getNotes example_db None (Some ''%'') = map_outcome select_note rows \<and>
      mset rows = mset (notes_table example_db) \<and>
      (\<exists>ns. getNotes example_db None (Some ''%'') = Returned ns \<and>
            list_all2 (\<lambda>row n. select_note row = Returned n) rows ns \<and>
            length ns = length (notes_table example_db) \<and>
            mset (map note_id ns) = mset (map n_id (notes_table example_db))))"
proof -
  have r: "tags_readable example_db" by code_simp
  have a: "getNotes example_db None (Some ''%'') = Returned [example_note]" by code_simp
  have b: "CHR ''%'' \<notin> set (note_title example_note) \<and>
           CHR ''%'' \<notin> set (note_content example_note) \<and>
           CHR ''%'' \<notin> set (concat (note_tags example_note))"
    by code_simp
  have c: "length (notes_table example_db) = 1" by code_simp
  show ?thesis
    using r a b c getNotes_percent_lists_all[of example_db] by blast
qed

subsection \<open>Deleting a category\<close>

text \<open>
  C2. For every store and every identifier, \<open>deleteCategory\<close> leaves exactly the notes
  of the other categories and exactly the categories with another identifier; it
  returns true exactly when a category with that identifier was stored, whatever notes
  there were; afterwards \<open>getCategory\<close> finds nothing under the identifier.
\<close>

theorem deleteCategory_removes_notes_and_category:
  "fst (deleteCategory i db) = Returned (i \<in> set (map c_id (categories_table db))) \<and>
   notes_table (snd (deleteCategory i db)) =
     filter (\<lambda>row. n_category_id row \<noteq> i) (notes_table db) \<and>
   categories_table (snd (deleteCategory i db)) =
     filter (\<lambda>row. c_id row \<noteq> i) (categories_table db) \<and>
   getCategory (snd (deleteCategory i db)) i = None"
proof -
  have "length (filter (\<lambda>row. c_id row = i) (categories_table db)) > 0 \<longleftrightarrow>
          i \<in> set (map c_id (categories_table db))"
    by (auto simp: filter_empty_conv)
  moreover have
    "find (\<lambda>row. c_id row = i) (filter (\<lambda>row. c_id row \<noteq> i) (categories_table db)) = None"
    by (rule find_None_fresh) auto
  ultimately show ?thesis
    by (auto simp: deleteCategory_def delete_notes_where_categoryId_def
          delete_categories_where_id_def getCategory_def)
qed

subsection \<open>Tags survive the store\<close>

text \<open>
  C4. For every list of strings \<open>L\<close>: when the identifier is new and the category
  exists, \<open>createNote\<close> with tags \<open>L\<close> succeeds and returns a note with tags \<open>L\<close>, and
  \<open>getNote\<close> on the resulting store returns a note whose tags are \<open>L\<close> again, in the
  same order and with the same repetitions.
\<close>

theorem createNote_getNote_tags:
  assumes fresh: "uuid \<notin> set (map n_id (notes_table db))"
    and fk: "in_categoryId ins \<in> set (map c_id (categories_table db))"
  shows "\<exists>note db' note'.
           createNote uuid now (ins\<lparr>in_tags := Some L\<rparr>) db = (Returned note, db') \<and>
           note_tags note = L \<and>
           getNote db' uuid = Returned (Some note') \<and> note_tags note' = L"
  using assms
  by (simp add: createNote_def insert_notes_def getNote_def find_append_fresh select_note_def
        JSON_parse_stringify Let_def)

theorem createNote_getNote_tags_witness:
  "''n1'' \<notin> set (map n_id (notes_table example_seeded)) \<and>
   in_categoryId example_insert \<in> set (map c_id (categories_table example_seeded)) \<and>
   getNote (snd (createNote ''n1'' 5000 (example_insert\<lparr>in_tags := Some [''a'', ''b'']\<rparr>)
                   example_seeded)) ''n1'' = Returned (Some example_note) \<and>
   note_tags example_note = [''a'', ''b''] \<and>
   (\<exists>note db' note'.
      createNote ''n1'' 5000 (example_insert\<lparr>in_tags := Some [''a'', ''b'']\<rparr>) example_seeded =
        (Returned note, db') \<and>
      note_tags note = [''a'', ''b''] \<and>
      getNote db' ''n1'' = Returned (Some note') \<and> note_tags note' = [''a'', ''b''])"
proof -
  have h1: "''n1'' \<notin> set (map n_id (notes_table example_seeded))" by code_simp
  have h2: "in_categoryId example_insert \<in> set (map c_id (categories_table example_seeded))"
    by code_simp
  have a: "getNote (snd (createNote ''n1'' 5000 (example_insert\<lparr>in_tags := Some [''a'', ''b'']\<rparr>)
                           example_seeded)) ''n1'' = Returned (Some example_note)"
    by code_simp
  have b: "note_tags example_note = [''a'', ''b'']" by code_simp
  show ?thesis
    using h1 h2 a b createNote_getNote_tags[OF h1 h2, of 5000 "[''a'', ''b'']"] by blast
qed

subsection \<open>Updating a note\<close>

lemma getNote_Some_row:
  assumes "getNote db i = Returned (Some existing)"
  shows "\<exists>row. find (\<lambda>row. n_id row = i) (notes_table db) = Some row \<and>
               select_note row = Returned existing"
  using assms by (auto simp: getNote_def split: option.splits outcome.splits)

lemma select_note_set_notes:
  assumes "select_note row = Returned existing"
  shows "select_note
           (set_notes \<lparr>set_updatedAt = now, set_title = un_title u, set_content = un_content u,
                       set_categoryId = un_categoryId u,
                       set_tags = map_option JSON_stringify (un_tags u)\<rparr> row) =
         Returned (merge_note existing u
                     (timestamp_mapFromDriverValue (timestamp_mapToDriverValue now)))"
  using assms
  by (cases "un_tags u")
     (auto simp: select_note_def set_notes_def merge_note_def JSON_parse_stringify
           split: outcome.splits option.splits)

lemma merge_note_updatedAt: "note_updatedAt (merge_note existing u now) = now"
  by (simp add: merge_note_def)

lemma updateNote_found:
  assumes ex: "getNote db i = Returned (Some existing)"
    and fk: "category_known db (un_categoryId u)"
  shows "fst (updateNote i now u db) = Returned (Some (merge_note existing u now)) \<and>
         getNote (snd (updateNote i now u db)) i =
           Returned (Some (merge_note existing u
                             (timestamp_mapFromDriverValue (timestamp_mapToDriverValue now))))"
proof -
  obtain row where row: "find (\<lambda>row. n_id row = i) (notes_table db) = Some row"
    and sel: "select_note row = Returned existing"
    using getNote_Some_row[OF ex] by blast
  let ?vals = "\<lparr>set_updatedAt = now, set_title = un_title u, set_content = un_content u,
                 set_categoryId = un_categoryId u,
                 set_tags = map_option JSON_stringify (un_tags u)\<rparr>"
  let ?db' = "db\<lparr>notes_table :=
                   map (\<lambda>row. if n_id row = i then set_notes ?vals row else row) (notes_table db)\<rparr>"
  have upd: "update_notes ?vals i db = (Returned (), ?db')"
    using fk by (auto simp: update_notes_def category_known_def split: option.splits)
  have existing_eq:
    "existing\<lparr>note_title := (case un_title u of None \<Rightarrow> note_title existing | Some v \<Rightarrow> v),
              note_content := (case un_content u of None \<Rightarrow> note_content existing | Some v \<Rightarrow> v),
              note_categoryId :=
                (case un_categoryId u of None \<Rightarrow> note_categoryId existing | Some v \<Rightarrow> v),
              note_tags := (case un_tags u of None \<Rightarrow> note_tags existing | Some v \<Rightarrow> v),
              note_updatedAt := now\<rparr> = merge_note existing u now"
    by (simp add: merge_note_def)
  have res: "updateNote i now u db = (Returned (Some (merge_note existing u now)), ?db')"
    using ex upd existing_eq merge_note_updatedAt[of existing u now]
    by (simp add: updateNote_def Let_def)
  have "find (\<lambda>row. n_id row = i) (notes_table ?db') = Some (set_notes ?vals row)"
    using row by (simp add: find_map_update[where f = n_id and g = "set_notes ?vals"] set_notes_id)
  then have "getNote ?db' i =
               Returned (Some (merge_note existing u
                                 (timestamp_mapFromDriverValue (timestamp_mapToDriverValue now))))"
    using select_note_set_notes[OF sel, of now u] by (simp add: getNote_def)
  then show ?thesis using res by simp
qed

text \<open>
  C3, as the code has it. For an identifier that \<open>getNote\<close> does not find, \<open>updateNote\<close>
  returns nothing and leaves the store as it was. For a note that \<open>getNote\<close> finds and
  a partial input whose category, if present, exists, \<open>updateNote\<close> returns the merged
  record (each of the four fields taken from the input when present, kept otherwise)
  with \<^verbatim>\<open>updatedAt\<close> set to the time given, and \<open>getNote\<close> then reads the same record
  with that time in whole seconds. In particular a partial input with a title only
  changes the title and \<^verbatim>\<open>updatedAt\<close> and nothing else.
\<close>

theorem updateNote_merges:
  "(getNote db i = Returned None \<longrightarrow> updateNote i now noteUpdate db = (Returned None, db)) \<and>
   (getNote db i = Returned (Some existing) \<and> category_known db (un_categoryId noteUpdate) \<longrightarrow>
      fst (updateNote i now noteUpdate db) = Returned (Some (merge_note existing noteUpdate now)) \<and>
      getNote (snd (updateNote i now noteUpdate db)) i =
        Returned (Some (merge_note existing noteUpdate
                          (timestamp_mapFromDriverValue (timestamp_mapToDriverValue now))))) \<and>
   (getNote db i = Returned (Some existing) \<longrightarrow>
      fst (updateNote i now (title_only t) db) =
        Returned (Some (existing\<lparr>note_title := t, note_updatedAt := now\<rparr>)) \<and>
      getNote (snd (updateNote i now (title_only t) db)) i =
        Returned (Some (existing\<lparr>note_title := t, note_updatedAt := now div 1000 * 1000\<rparr>)))"
proof -
  have a: "getNote db i = Returned None \<Longrightarrow> updateNote i now noteUpdate db = (Returned None, db)"
    by (simp add: updateNote_def)
  have c: "merge_note existing (title_only t) d = existing\<lparr>note_title := t, note_updatedAt := d\<rparr>"
    for d
    by (simp add: merge_note_def title_only_def)
  have k: "category_known db (un_categoryId (title_only t))"
    by (simp add: category_known_def title_only_def)
  show ?thesis
    using a updateNote_found[of db i existing noteUpdate now]
      updateNote_found[of db i existing "title_only t" now, OF _ k]
    by (simp add: c timestamp_mapFromDriverValue_def timestamp_mapToDriverValue_def)
qed

theorem updateNote_merges_witness:
  "getNote example_db ''zz'' = Returned None \<and>
   updateNote ''zz'' 9000 (title_only ''X'') example_db = (Returned None, example_db) \<and>
   getNote example_db ''n1'' = Returned (Some example_note) \<and>
   category_known example_db (un_categoryId (title_only ''X'')) \<and>
   fst (updateNote ''n1'' 9000 (title_only ''X'') example_db) =
     Returned (Some (example_note\<lparr>note_title := ''X'', note_updatedAt := 9000\<rparr>)) \<and>
   getNote (snd (updateNote ''n1'' 9000 (title_only ''X'') example_db)) ''n1'' =
     Returned (Some (example_note\<lparr>note_title := ''X'', note_updatedAt := 9000\<rparr>))"
proof -
  have h1: "getNote example_db ''zz'' = Returned None" by code_simp
  have h2: "getNote example_db ''n1'' = Returned (Some example_note)" by code_simp
  have h3: "category_known example_db (un_categoryId (title_only ''X''))" by code_simp
  have d: "(9000::int) div 1000 * 1000 = 9000" by simp
  have a: "updateNote ''zz'' 9000 (title_only ''X'') example_db = (Returned None, example_db)"
    using h1 updateNote_merges[of example_db "''zz''" 9000 "title_only ''X''" example_note "''X''"]
    by blast
  have b: "fst (updateNote ''n1'' 9000 (title_only ''X'') example_db) =
             Returned (Some (example_note\<lparr>note_title := ''X'', note_updatedAt := 9000\<rparr>)) \<and>
           getNote (snd (updateNote ''n1'' 9000 (title_only ''X'') example_db)) ''n1'' =
             Returned (Some (example_note\<lparr>note_title := ''X'',
                               note_updatedAt := 9000 div 1000 * 1000\<rparr>))"
    using h2 updateNote_merges[of example_db "''n1''" 9000 "title_only ''X''" example_note "''X''"]
    by blast
  show ?thesis
    using h1 h2 h3 a b unfolding d by blast
qed

text \<open>
  C3 as it is worded, with \<^verbatim>\<open>updatedAt\<close> strictly increasing at every update, fails.
  The note of the example was created at the time 5000. Updated at the same time 5000, the
  record returned has the \<^verbatim>\<open>updatedAt\<close> it had; updated at the time 5999, within the same
  second, the note read back has the \<^verbatim>\<open>updatedAt\<close> it had.
\<close>

theorem updateNote_updatedAt_counterexample:
  "getNote example_db ''n1'' = Returned (Some example_note) \<and>
   fst (updateNote ''n1'' 5000 (title_only ''X'') example_db) =
     Returned (Some (example_note\<lparr>note_title := ''X''\<rparr>)) \<and>
   getNote (snd (updateNote ''n1'' 5999 (title_only ''X'') example_db)) ''n1'' =
     Returned (Some (example_note\<lparr>note_title := ''X''\<rparr>)) \<and>
   \<not> note_updatedAt example_note < note_updatedAt (example_note\<lparr>note_title := ''X''\<rparr>)"
  by code_simp

subsection \<open>Referential integrity\<close>

text \<open>
  C5. In every state that the repository reaches from the seeded empty store, by any
  sequence of its writing operations (whether they return or throw), every note's
  category is the identifier of a stored category; and \<open>createNote\<close>, \<open>updateNote\<close>
  and \<open>deleteCategory\<close> lead from any state with that property to a state with it.
\<close>

theorem no_orphans_invariant:
  "(reachable db \<longrightarrow> no_orphans db) \<and>
   (no_orphans db \<longrightarrow>
      no_orphans (snd (createNote uuid now insertNote db)) \<and>
      no_orphans (snd (updateNote i now' noteUpdate db)) \<and>
      no_orphans (snd (deleteCategory j db)))"
  using reachable_no_orphans[of db]
  by (simp add: no_orphans_createNote no_orphans_updateNote no_orphans_deleteCategory)

lemma reachable_example_db: "reachable example_db"
proof -
  have "reachable example_seeded"
    unfolding example_seeded_def by (rule reachable.seeded)
  then have "reachable (apply_operation (CreateNote ''n1'' 5000 example_insert) example_seeded)"
    by (rule reachable.step)
  then show ?thesis by (simp add: example_db_def)
qed

theorem no_orphans_invariant_witness:
  "reachable example_db \<and>
   no_orphans example_db \<and>
   no_orphans (snd (createNote ''n2'' 6000 (example_insert\<lparr>in_categoryId := ''gone''\<rparr>) example_db)) \<and>
   fst (createNote ''n2'' 6000 (example_insert\<lparr>in_categoryId := ''gone''\<rparr>) example_db) =
     Thrown SQLITE_CONSTRAINT_FOREIGNKEY \<and>
   no_orphans (snd (updateNote ''n1'' 7000
                      \<lparr>un_title = None, un_content = None, un_categoryId = Some ''c2'', un_tags = None\<rparr>
                      example_db)) \<and>
   no_orphans (snd (deleteCategory ''c1'' example_db)) \<and>
   notes_table (snd (deleteCategory ''c1'' example_db)) = []"
proof -
  have a: "fst (createNote ''n2'' 6000 (example_insert\<lparr>in_categoryId := ''gone''\<rparr>) example_db) =
             Thrown SQLITE_CONSTRAINT_FOREIGNKEY"
    by code_simp
  have b: "notes_table (snd (deleteCategory ''c1'' example_db)) = []" by code_simp
  note inv =
    no_orphans_invariant[of example_db "''n2''" 6000
      "example_insert\<lparr>in_categoryId := ''gone''\<rparr>" "''n1''" 7000
      "\<lparr>un_title = None, un_content = None, un_categoryId = Some ''c2'', un_tags = None\<rparr>"
      "''c1''"]
  have c: "no_orphans example_db"
    using inv reachable_example_db by blast
  show ?thesis
    using a b c reachable_example_db inv by blast
qed

subsection \<open>Identifiers that are not stored\<close>

text \<open>
  C6. For an identifier that no note has, \<open>getNote\<close> and \<open>updateNote\<close> return nothing
  and \<open>deleteNote\<close> returns false; for an identifier that no category has,
  \<open>getCategory\<close> and \<open>updateCategory\<close> return nothing and \<open>deleteCategory\<close> returns
  false. None of them throws, and each leaves the store as it was (for \<open>deleteCategory\<close>
  in a store without orphan notes, which is every store the repository reaches).
  \<open>deleteNote\<close> returns true exactly when the table of notes got shorter.
\<close>

theorem absent_id_not_found:
  "(i \<notin> set (map n_id (notes_table db)) \<longrightarrow>
      getNote db i = Returned None \<and>
      updateNote i now noteUpdate db = (Returned None, db) \<and>
      deleteNote i db = (Returned False, db)) \<and>
   (i \<notin> set (map c_id (categories_table db)) \<longrightarrow>
      getCategory db i = None \<and>
      updateCategory i categoryUpdate db = (Returned None, db)) \<and>
   (i \<notin> set (map c_id (categories_table db)) \<and> no_orphans db \<longrightarrow>
      deleteCategory i db = (Returned False, db)) \<and>
   fst (deleteNote i db) =
     Returned (length (notes_table (snd (deleteNote i db))) < length (notes_table db))"
proof -
  have n: "getNote db i = Returned None \<and>
      updateNote i now noteUpdate db = (Returned None, db) \<and>
      deleteNote i db = (Returned False, db)" if "i \<notin> set (map n_id (notes_table db))"
    using find_None_fresh[OF that] filter_fresh[OF that] filter_fresh_eq[OF that]
    by (simp add: getNote_def updateNote_def deleteNote_def delete_notes_where_id_def)
  have c: "getCategory db i = None \<and>
      updateCategory i categoryUpdate db = (Returned None, db)" if "i \<notin> set (map c_id (categories_table db))"
    using find_None_fresh[OF that]
    by (simp add: getCategory_def updateCategory_def)
  have d: "deleteCategory i db = (Returned False, db)"
    if "i \<notin> set (map c_id (categories_table db))" "no_orphans db"
  proof -
    have "i \<notin> set (map n_category_id (notes_table db))"
      using that by (auto simp: no_orphans_def)
    then show ?thesis
      using filter_fresh[OF that(1)] filter_fresh_eq[OF that(1)]
        filter_fresh[of i n_category_id "notes_table db"] that(1)
      by (simp add: deleteCategory_def delete_notes_where_categoryId_def delete_categories_where_id_def)
  qed
  have e: "fst (deleteNote i db) =
     Returned (length (notes_table (snd (deleteNote i db))) < length (notes_table db))"
  proof -
    have "(0 < length (filter (\<lambda>row. n_id row = i) (notes_table db))) =
            (length (filter (\<lambda>row. n_id row \<noteq> i) (notes_table db)) < length (notes_table db))"
      using sum_length_filter_compl[of "\<lambda>row. n_id row = i" "notes_table db"] by arith
    then show ?thesis
      by (simp add: deleteNote_def delete_notes_where_id_def)
  qed
  show ?thesis using n c d e by blast
qed

theorem absent_id_not_found_witness:
  "''zz'' \<notin> set (map n_id (notes_table example_db)) \<and>
   ''zz'' \<notin> set (map c_id (categories_table example_db)) \<and>
   no_orphans example_db \<and>
   getNote example_db ''zz'' = Returned None \<and>
   updateNote ''zz'' 9000 (title_only ''X'') example_db = (Returned None, example_db) \<and>
   deleteNote ''zz'' example_db = (Returned False, example_db) \<and>
   getCategory example_db ''zz'' = None \<and>
   updateCategory ''zz'' \<lparr>pc_name = Some ''N'', pc_color = None\<rparr> example_db = (Returned None, example_db) \<and>
   deleteCategory ''zz'' example_db = (Returned False, example_db) \<and>
   fst (deleteNote ''n1'' example_db) = Returned True"
proof -
  have h1: "''zz'' \<notin> set (map n_id (notes_table example_db))" by code_simp
  have h2: "''zz'' \<notin> set (map c_id (categories_table example_db))" by code_simp
  have h3: "no_orphans example_db" by code_simp
  have a: "fst (deleteNote ''n1'' example_db) = Returned True" by code_simp
  show ?thesis
    using h1 h2 h3 a
      absent_id_not_found[of "''zz''" example_db 9000 "title_only ''X''" "\<lparr>pc_name = Some ''N'', pc_color = None\<rparr>"]
    by blast
qed

subsection \<open>Counting the notes of each category\<close>

lemma count_note_lookup:
  "count_note counts k j = (if j = k then Some (noteCount counts k + 1) else counts j)"
  by (simp add: count_note_def noteCount_def)

lemma noteCount_count_note:
  "noteCount (count_note counts k) j = (if j = k then noteCount counts k + 1 else noteCount counts j)"
  by (simp add: count_note_def noteCount_def)

lemma foldl_count_note:
  "foldl count_note counts ks j =
     (if j \<in> set ks then Some (noteCount counts j + count_list ks j) else counts j)"
proof (induction ks arbitrary: counts)
  case Nil
  show ?case by simp
next
  case (Cons k ks)
  have "foldl count_note counts (k # ks) j = foldl count_note (count_note counts k) ks j"
    by simp
  also have "\<dots> = (if j \<in> set ks
                   then Some (noteCount (count_note counts k) j + count_list ks j)
                   else count_note counts k j)"
    by (rule Cons.IH)
  also have "\<dots> = (if j \<in> set (k # ks)
                   then Some (noteCount counts j + count_list (k # ks) j)
                   else counts j)"
    by (auto simp: noteCount_count_note count_note_lookup)
  finally show ?case .
qed

lemma count_list_category:
  "count_list (map n_category_id rows) k = length (filter (\<lambda>row. n_category_id row = k) rows)"
  by (induction rows) auto

lemma getCategoryNoteCounts_lookup:
  "getCategoryNoteCounts db k =
     (if k \<in> set (map n_category_id (notes_table db))
      then Some (length (filter (\<lambda>row. n_category_id row = k) (notes_table db)))
      else None)"
  by (simp add: getCategoryNoteCounts_def foldl_count_note noteCount_def count_list_category
        del: set_map)

lemma noteCount_getCategoryNoteCounts:
  "noteCount (getCategoryNoteCounts db) k = count_list (map n_category_id (notes_table db)) k"
  by (simp add: getCategoryNoteCounts_def foldl_count_note noteCount_def)

lemma dom_getCategoryNoteCounts:
  "dom (getCategoryNoteCounts db) = set (map n_category_id (notes_table db))"
  by (auto simp: getCategoryNoteCounts_def foldl_count_note dom_def split: if_splits)

text \<open>
  C8. For every store, \<open>getCategoryNoteCounts\<close> maps each category identifier that
  some note carries to the number of notes that carry it, and no other identifier. The
  counts over the keys of the mapping add up to the number of notes; and when no note is
  an orphan and the categories have distinct identifiers, the counts that the route
  reads for the stored categories (\<^verbatim>\<open>counts[id] || 0\<close>) add up to the number of notes
  as well.
\<close>

theorem getCategoryNoteCounts_counts:
  "getCategoryNoteCounts db k =
     (if k \<in> set (map n_category_id (notes_table db))
      then Some (length (filter (\<lambda>row. n_category_id row = k) (notes_table db)))
      else None) \<and>
   (\<Sum>j \<in> dom (getCategoryNoteCounts db). noteCount (getCategoryNoteCounts db) j) =
     length (notes_table db) \<and>
   (no_orphans db \<and> distinct (map c_id (categories_table db)) \<longrightarrow>
      (\<Sum>c \<leftarrow> categories_table db. noteCount (getCategoryNoteCounts db) (c_id c)) =
        length (notes_table db))"
proof -
  let ?ks = "map n_category_id (notes_table db)"
  have a: "(\<Sum>j \<in> dom (getCategoryNoteCounts db). noteCount (getCategoryNoteCounts db) j) =
     length (notes_table db)"
    using sum_count_set[of ?ks "set ?ks"]
    by (simp add: dom_getCategoryNoteCounts noteCount_getCategoryNoteCounts del: set_map)
  have b: "(\<Sum>c \<leftarrow> categories_table db. noteCount (getCategoryNoteCounts db) (c_id c)) =
        length (notes_table db)"
    if inv: "no_orphans db" and d: "distinct (map c_id (categories_table db))"
  proof -
    have "(\<Sum>c \<leftarrow> categories_table db. noteCount (getCategoryNoteCounts db) (c_id c)) =
            sum_list (map (count_list ?ks) (map c_id (categories_table db)))"
      by (simp add: noteCount_getCategoryNoteCounts comp_def)
    also have "\<dots> = sum (count_list ?ks) (set (map c_id (categories_table db)))"
      using d by (rule sum_list_distinct_conv_sum_set)
    also have "\<dots> = length ?ks"
      using inv by (intro sum_count_set) (simp_all add: no_orphans_def)
    finally show ?thesis by simp
  qed
  show ?thesis using getCategoryNoteCounts_lookup a b by blast
qed

theorem getCategoryNoteCounts_counts_witness:
  "no_orphans example_db \<and> distinct (map c_id (categories_table example_db)) \<and>
   getCategoryNoteCounts example_db ''c1'' = Some 1 \<and>
   getCategoryNoteCounts example_db ''c2'' = None \<and>
   (\<Sum>c \<leftarrow> categories_table example_db. noteCount (getCategoryNoteCounts example_db) (c_id c)) =
        length (notes_table example_db) \<and>
   length (notes_table example_db) = 1"
proof -
  have h1: "no_orphans example_db" by code_simp
  have h2: "distinct (map c_id (categories_table example_db))" by code_simp
  have a: "getCategoryNoteCounts example_db ''c1'' = Some 1" by code_simp
  have b: "getCategoryNoteCounts example_db ''c2'' = None" by code_simp
  have c: "length (notes_table example_db) = 1" by code_simp
  show ?thesis
    using h1 h2 a b c getCategoryNoteCounts_counts[of example_db "''c1''"] by blast
qed

subsection \<open>Seeding\<close>

lemma noteCount_no_notes: "notes_table db = [] \<Longrightarrow> noteCount (getCategoryNoteCounts db) k = 0"
  by (simp add: getCategoryNoteCounts_def noteCount_def)

lemma seedDatabase_nonempty:
  "categories_table db \<noteq> [] \<Longrightarrow> seedDatabase uuids dates db = (Returned (), db)"
  by (simp add: seedDatabase_def)

lemma initialize_empty:
  assumes "distinct [u1, u2, u3, u4]"
  shows "initialize (u1, u2, u3, u4) (t1, t2, t3, t4) empty_database =
        (Returned (),
         \<lparr>categories_table =
            [\<lparr>c_id = u1, c_name = ''Work Notes'', c_color = ''#3b82f6'', c_created_at = t1 div 1000\<rparr>,
             \<lparr>c_id = u2, c_name = ''Personal'', c_color = ''#10b981'', c_created_at = t2 div 1000\<rparr>,
             \<lparr>c_id = u3, c_name = ''Ideas'', c_color = ''#ef4444'', c_created_at = t3 div 1000\<rparr>,
             \<lparr>c_id = u4, c_name = ''Prompts'', c_color = ''#8b5cf6'', c_created_at = t4 div 1000\<rparr>],
          notes_table = []\<rparr>)"
  using assms
  by (auto simp: initialize_def initializeDatabase_def seedDatabase_def empty_database_def
        defaultCategories_def insert_categories_def timestamp_mapToDriverValue_def)

text \<open>
  C9. Started on the empty store with four distinct identifiers, the initialization
  returns and leaves exactly the four default categories, in their order, with their
  names and colours, and no note, so that the note count of every identifier is 0;
  seeding that store again changes nothing. On any store with at least one category,
  \<open>seedDatabase\<close> returns and changes nothing.
\<close>

theorem seedDatabase_four_defaults:
  "(distinct [u1, u2, u3, u4] \<longrightarrow>
      initialize (u1, u2, u3, u4) (t1, t2, t3, t4) empty_database =
        (Returned (),
         \<lparr>categories_table =
            [\<lparr>c_id = u1, c_name = ''Work Notes'', c_color = ''#3b82f6'', c_created_at = t1 div 1000\<rparr>,
             \<lparr>c_id = u2, c_name = ''Personal'', c_color = ''#10b981'', c_created_at = t2 div 1000\<rparr>,
             \<lparr>c_id = u3, c_name = ''Ideas'', c_color = ''#ef4444'', c_created_at = t3 div 1000\<rparr>,
             \<lparr>c_id = u4, c_name = ''Prompts'', c_color = ''#8b5cf6'', c_created_at = t4 div 1000\<rparr>],
          notes_table = []\<rparr>) \<and>
      noteCount (getCategoryNoteCounts
                   (snd (initialize (u1, u2, u3, u4) (t1, t2, t3, t4) empty_database))) k = 0 \<and>
      seedDatabase uuids dates (snd (initialize (u1, u2, u3, u4) (t1, t2, t3, t4) empty_database)) =
        (Returned (), snd (initialize (u1, u2, u3, u4) (t1, t2, t3, t4) empty_database))) \<and>
   (categories_table db \<noteq> [] \<longrightarrow> seedDatabase uuids dates db = (Returned (), db))"
proof -
  have "noteCount (getCategoryNoteCounts
                   (snd (initialize (u1, u2, u3, u4) (t1, t2, t3, t4) empty_database))) k = 0 \<and>
      seedDatabase uuids dates (snd (initialize (u1, u2, u3, u4) (t1, t2, t3, t4) empty_database)) =
        (Returned (), snd (initialize (u1, u2, u3, u4) (t1, t2, t3, t4) empty_database))"
    if d: "distinct [u1, u2, u3, u4]"
    by (simp add: initialize_empty[OF d] noteCount_no_notes seedDatabase_nonempty)
  then show ?thesis
    using initialize_empty[of u1 u2 u3 u4 t1 t2 t3 t4] seedDatabase_nonempty[of db uuids dates]
    by blast
qed

theorem seedDatabase_four_defaults_witness:
  "distinct [''c1'', ''c2'', ''c3'', ''c4''] \<and>
   map (\<lambda>row. (c_name row, c_color row)) (categories_table example_seeded) =
     [(''Work Notes'', ''#3b82f6''), (''Personal'', ''#10b981''), (''Ideas'', ''#ef4444''),
      (''Prompts'', ''#8b5cf6'')] \<and>
   notes_table example_seeded = [] \<and>
   map (\<lambda>row. noteCount (getCategoryNoteCounts example_seeded) (c_id row))
     (categories_table example_seeded) = [0, 0, 0, 0] \<and>
   categories_table example_seeded \<noteq> [] \<and>
   seedDatabase (''d1'', ''d2'', ''d3'', ''d4'') (2000, 2000, 2000, 2000) example_seeded =
     (Returned (), example_seeded)"
proof -
  have h1: "distinct [''c1'', ''c2'', ''c3'', ''c4'']" by simp
  have h2: "categories_table example_seeded \<noteq> []" by code_simp
  have a: "map (\<lambda>row. (c_name row, c_color row)) (categories_table example_seeded) =
     [(''Work Notes'', ''#3b82f6''), (''Personal'', ''#10b981''), (''Ideas'', ''#ef4444''),
      (''Prompts'', ''#8b5cf6'')]" by code_simp
  have b: "notes_table example_seeded = []" by code_simp
  have c: "map (\<lambda>row. noteCount (getCategoryNoteCounts example_seeded) (c_id row))
     (categories_table example_seeded) = [0, 0, 0, 0]" by code_simp
  show ?thesis
    using h1 h2 a b c
      seedDatabase_four_defaults[of "''c1''" "''c2''" "''c3''" "''c4''" 1000 1000 1000 1000 _
        "(''d1'', ''d2'', ''d3'', ''d4'')" "(2000, 2000, 2000, 2000)" example_seeded]
    by blast
qed

subsection \<open>Updating a category\<close>

text \<open>
  For a category that is stored and a partial input with at least one field,
  \<open>updateCategory\<close> returns the merged record, and \<open>getCategory\<close> reads it back.
\<close>

lemma updateCategory_merges:
  assumes ex: "getCategory db i = Some existing"
    and ne: "pc_name u \<noteq> None \<or> pc_color u \<noteq> None"
  shows "fst (updateCategory i u db) =
           Returned (Some (existing\<lparr>category_name := (case pc_name u of None \<Rightarrow> category_name existing | Some v \<Rightarrow> v),
                                   category_color := (case pc_color u of None \<Rightarrow> category_color existing | Some v \<Rightarrow> v)\<rparr>)) \<and>
         getCategory (snd (updateCategory i u db)) i =
           Some (existing\<lparr>category_name := (case pc_name u of None \<Rightarrow> category_name existing | Some v \<Rightarrow> v),
                          category_color := (case pc_color u of None \<Rightarrow> category_color existing | Some v \<Rightarrow> v)\<rparr>)"
proof -
  obtain row where row: "find (\<lambda>row. c_id row = i) (categories_table db) = Some row"
    and sel: "select_category row = existing"
    using ex by (auto simp: getCategory_def)
  have "select_category (set_categories u row) =
          existing\<lparr>category_name := (case pc_name u of None \<Rightarrow> category_name existing | Some v \<Rightarrow> v),
                   category_color := (case pc_color u of None \<Rightarrow> category_color existing | Some v \<Rightarrow> v)\<rparr>"
    using sel by (auto simp: select_category_def set_categories_def split: option.splits)
  then show ?thesis
    using ex ne row
    by (auto simp: updateCategory_def update_categories_def getCategory_def Let_def
          find_map_update[where f = c_id and g = "set_categories u"] set_categories_id)
qed

lemma updateCategory_empty_throws:
  assumes "getCategory db i = Some existing"
  shows "updateCategory i \<lparr>pc_name = None, pc_color = None\<rparr> db = (Thrown NoValuesToSet, db)"
  using assms by (simp add: updateCategory_def update_categories_def)

text \<open>
  C7, at the empty partial input. The category \<^verbatim>\<open>c1\<close> of the seeded store exists, and
  \<open>updateCategory\<close> with no field to set does not return its record: the update that
  sets no column throws, and the store stays as it was.
\<close>

theorem updateCategory_empty_partial_throws:
  "getCategory example_seeded ''c1'' =
     Some \<lparr>category_id = ''c1'', category_name = ''Work Notes'', category_color = ''#3b82f6'',
           category_createdAt = 1000\<rparr> \<and>
   updateCategory ''c1'' \<lparr>pc_name = None, pc_color = None\<rparr> example_seeded =
     (Thrown NoValuesToSet, example_seeded)"
  by code_simp

end
